theory Spec2Isabelle
  imports Main
begin

section \<open>Python values the request engine works with\<close>

text \<open>
  Every \<open>raise\<close> of the source is a value of \<open>py_error\<close>; a function that can raise
  returns \<open>py_error + 'a\<close> with \<open>Inl\<close> for the exception.
  \<open>Exception_generic\<close> is the bare \<open>raise Exception\<close> of
  \<open>RequestsService.execute_action\<close>. No function under src/ constructs
  \<open>ActionNotExecutableError\<close>; the constructor is there because a pluggable action's
  \<open>execute\<close> may raise it.
\<close>

datatype py_error =
    KeyError string
  | TypeError
  | AttributeError
  | NoResultFound
  | MultipleResultsFound
  | NoSuchActionError string
  | ActionNotExecutableError
  | InvalidCreator
  | PermissionDeniedError string
  | UnknownTypeError string
  | Exception_generic
  | OtherError string

datatype py_value = PyNone | PyBool bool | PyStr string | PyInt int

type_synonym py_dict = "(string \<times> string) list"

subsection \<open>datetime\<close>

text \<open>
  A \<open>datetime\<close> is its wall-clock fields, counted in microseconds, and an optional
  \<open>tzinfo\<close>. \<open>utcoffset\<close> is what \<open>d.tzinfo.utcoffset(d)\<close> returns for this
  datetime: \<open>None\<close> or an offset in microseconds. Python calls a datetime aware when it
  has a tzinfo whose utcoffset is not None, and naive otherwise. An order comparison between
  a naive and an aware datetime raises TypeError; two aware datetimes are compared after
  subtracting their offsets, two naive ones by their fields.
\<close>

datatype tzinfo = Tzinfo (utcoffset: "int option")

record datetime =
  wall :: int
  tzinfo :: "tzinfo option"

definition pytz_utc :: tzinfo where
  "pytz_utc = Tzinfo (Some 0)"

definition aware :: "datetime \<Rightarrow> bool" where
  "aware d = (case tzinfo d of None \<Rightarrow> False
              | Some tz \<Rightarrow> (case utcoffset tz of None \<Rightarrow> False | Some _ \<Rightarrow> True))"

definition utc_instant :: "datetime \<Rightarrow> int" where
  "utc_instant d = (case tzinfo d of None \<Rightarrow> wall d
                    | Some tz \<Rightarrow> (case utcoffset tz of None \<Rightarrow> wall d
                                                     | Some off \<Rightarrow> wall d - off))"

definition datetime_lt :: "datetime \<Rightarrow> datetime \<Rightarrow> py_error + bool" where
  "datetime_lt a b =
     (if aware a \<noteq> aware b then Inl TypeError
      else Inr (utc_instant a < utc_instant b))"

definition utcnow :: "int \<Rightarrow> datetime" where
  "utcnow clock = \<lparr>wall = clock, tzinfo = None\<rparr>"

section \<open>records/api.py: the Request aggregate\<close>

text \<open>
  A row of the \<open>RequestMetadata\<close> table: the primary key, the external identity
  (\<open>number\<close>, a nullable column), the expiry, the deletion flag and the JSON column.
\<close>

record request_metadata =
  model_id :: string
  external_id :: "string option"
  expires_at :: "datetime option"
  is_deleted :: bool
  data :: "py_dict option"

text \<open>
  A \<open>Request\<close> object is \<open>cls(model.data, model=model)\<close>: the dictionary of its JSON
  fields and the row behind it.
\<close>

record request =
  json :: py_dict
  model :: request_metadata

record identity =
  identity_id :: string
  provides :: "string list"

text \<open>
  An action bound to a request (the action classes are not under src/, so both methods are
  parameters). \<open>execute\<close> returns its return value and the request as it has mutated it.
\<close>

record action =
  can_execute :: "identity \<Rightarrow> py_error + bool"
  execute :: "identity \<Rightarrow> py_error + (py_value \<times> request)"

text \<open>
  A request type: its id and \<open>available_actions\<close>, a dictionary from action names to
  constructors. Calling a constructor on the request may raise.
\<close>

record request_type =
  type_id :: string
  available_actions :: "string \<Rightarrow> (request \<Rightarrow> py_error + action) option"

definition is_expired_now :: "datetime \<Rightarrow> int \<Rightarrow> datetime" where
  "is_expired_now d clock =
     (let now = utcnow clock in
      if (case tzinfo d of None \<Rightarrow> False
          | Some tz \<Rightarrow> (case utcoffset tz of None \<Rightarrow> False | Some _ \<Rightarrow> True))
      then now\<lparr>tzinfo := Some pytz_utc\<rparr>
      else now)"

definition is_expired :: "request \<Rightarrow> int \<Rightarrow> py_error + bool" where
  "is_expired self clock =
     (case expires_at (model self) of
        None \<Rightarrow> Inr False
      | Some d \<Rightarrow> datetime_lt d (is_expired_now d clock))"

definition get_action :: "request_type \<Rightarrow> request \<Rightarrow> string \<Rightarrow> py_error + action" where
  "get_action rt self action_name =
     (case available_actions rt action_name of
        None \<Rightarrow> Inl (NoSuchActionError action_name)
      | Some ctor \<Rightarrow>
          (case ctor self of
             Inl (KeyError k) \<Rightarrow> Inl (NoSuchActionError action_name)
           | Inl e \<Rightarrow> Inl e
           | Inr a \<Rightarrow> Inr a))"

definition can_execute_action ::
  "request_type \<Rightarrow> request \<Rightarrow> string \<Rightarrow> identity \<Rightarrow> py_error + bool" where
  "can_execute_action rt self action_name ident =
     (case get_action rt self action_name of
        Inl e \<Rightarrow> Inl e
      | Inr a \<Rightarrow> can_execute a ident)"

definition execute_action ::
  "request_type \<Rightarrow> request \<Rightarrow> string \<Rightarrow> identity \<Rightarrow> py_error + (py_value \<times> request)" where
  "execute_action rt self action_name ident =
     (case get_action rt self action_name of
        Inl e \<Rightarrow> Inl e
      | Inr a \<Rightarrow> execute a ident)"

subsection \<open>Request.get_record\<close>

text \<open>
  The table is the list of its rows. \<open>Query.one()\<close> returns the only row of a query and
  raises NoResultFound or MultipleResultsFound otherwise; it never returns None, so the
  \<open>if model is None\<close> branch of \<open>get_record\<close> is never taken and has no counterpart here.
  An id is None or the text of the id (\<open>str(id_)\<close> of None is the text None); the
  primary key is never NULL, so \<open>filter_by(id=None)\<close> selects no row.
\<close>

definition query_one :: "'a list \<Rightarrow> py_error + 'a" where
  "query_one rows =
     (case rows of
        [] \<Rightarrow> Inl NoResultFound
      | [m] \<Rightarrow> Inr m
      | _ \<Rightarrow> Inl MultipleResultsFound)"

definition py_str :: "string option \<Rightarrow> string" where
  "py_str v = (case v of None \<Rightarrow> ''None'' | Some s \<Rightarrow> s)"

definition filter_by_external_id ::
  "string \<Rightarrow> request_metadata list \<Rightarrow> request_metadata list" where
  "filter_by_external_id s rows = filter (\<lambda>m. external_id m = Some s) rows"

definition filter_by_id ::
  "string option \<Rightarrow> request_metadata list \<Rightarrow> request_metadata list" where
  "filter_by_id v rows = filter (\<lambda>m. Some (model_id m) = v) rows"

definition filter_deleted :: "bool \<Rightarrow> request_metadata list \<Rightarrow> request_metadata list" where
  "filter_deleted with_deleted rows =
     (if \<not> with_deleted then filter (\<lambda>m. is_deleted m \<noteq> True) rows else rows)"

definition Request_init :: "request_metadata \<Rightarrow> request" where
  "Request_init m = \<lparr>json = (case data m of None \<Rightarrow> [] | Some d \<Rightarrow> d), model = m\<rparr>"

definition get_record ::
  "request_metadata list \<Rightarrow> string option \<Rightarrow> bool \<Rightarrow> py_error + request" where
  "get_record table id_v with_deleted =
     (case
        (case query_one (filter_deleted with_deleted
                (filter_by_external_id (py_str id_v) table)) of
           Inr m \<Rightarrow> Inr m
         | Inl e \<Rightarrow>
             if e = MultipleResultsFound \<or> e = NoResultFound
             then query_one (filter_deleted with_deleted (filter_by_id id_v table))
             else Inl e)
      of
        Inl e \<Rightarrow> Inl e
      | Inr m \<Rightarrow> Inr (Request_init m))"

section \<open>services/requests/service.py: RequestsService\<close>

text \<open>
  The service's state is the table and the set of ids in the search index. Its
  configuration (not under src/) is a parameter: the permission policy behind
  \<open>require_permission\<close>, the \<open>delete\<close> hooks of the components (each may raise), the
  type registry, and whether an indexer is configured. The registry gives the class of a
  request, which fixes its request type.
\<close>

record service_state =
  table :: "request_metadata list"
  indexed :: "string list"

record service_config =
  permits :: "identity \<Rightarrow> string \<Rightarrow> request option \<Rightarrow> bool"
  delete_hooks :: "(identity \<Rightarrow> request \<Rightarrow> py_error option) list"
  registry_lookup :: "string option \<Rightarrow> py_error + request_type"
  has_indexer :: bool

definition require_permission ::
  "(identity \<Rightarrow> string \<Rightarrow> request option \<Rightarrow> bool) \<Rightarrow> identity \<Rightarrow> string \<Rightarrow>
   request option \<Rightarrow> py_error option" where
  "require_permission policy ident action_name rec =
     (if policy ident action_name rec then None
      else Some (PermissionDeniedError action_name))"

definition query_get :: "request_metadata list \<Rightarrow> string option \<Rightarrow> request_metadata option" where
  "query_get rows v = (case filter_by_id v rows of [] \<Rightarrow> None | m # _ \<Rightarrow> Some m)"

definition request_from_model ::
  "service_config \<Rightarrow> request_metadata option \<Rightarrow> py_error + (request_type \<times> request)" where
  "request_from_model cfg mo =
     (case mo of
        None \<Rightarrow> Inl AttributeError
      | Some m \<Rightarrow>
          (case data m of
             None \<Rightarrow> Inl AttributeError
           | Some d \<Rightarrow>
               (case registry_lookup cfg (map_of d ''request_type'') of
                  Inl e \<Rightarrow> Inl e
                | Inr rt \<Rightarrow> Inr (rt, Request_init m))))"

definition get_request ::
  "service_config \<Rightarrow> request_metadata list \<Rightarrow> string option \<Rightarrow>
   py_error + (request_type \<times> request)" where
  "get_request cfg rows id_v =
     request_from_model cfg
       (case query_one (filter_by_external_id (py_str id_v) rows) of
          Inr m \<Rightarrow> Some m
        | Inl e \<Rightarrow> query_get rows id_v)"

definition RequestsService_execute_action ::
  "service_config \<Rightarrow> service_state \<Rightarrow> string \<Rightarrow> string option \<Rightarrow> identity \<Rightarrow>
   py_error + (py_value \<times> request)" where
  "RequestsService_execute_action cfg st action_name id_v ident =
     (case get_request cfg (table st) id_v of
        Inl e \<Rightarrow> Inl e
      | Inr (rt, req) \<Rightarrow>
          (case can_execute_action rt req action_name ident of
             Inl e \<Rightarrow> Inl e
           | Inr ok \<Rightarrow>
               if \<not> ok then Inl Exception_generic
               else execute_action rt req action_name ident))"

fun run_hooks ::
  "(identity \<Rightarrow> request \<Rightarrow> py_error option) list \<Rightarrow> identity \<Rightarrow> request \<Rightarrow> py_error option" where
  "run_hooks [] ident req = None"
| "run_hooks (h # hs) ident req =
     (case h ident req of Some e \<Rightarrow> Some e | None \<Rightarrow> run_hooks hs ident req)"

text \<open>
  \<open>Record.delete()\<close> of invenio-records, called without \<open>force\<close>, is the soft delete:
  it sets \<open>is_deleted\<close> on the row and empties its JSON column. The commit writes the row
  back under its primary key.
\<close>

definition Record_delete :: "request \<Rightarrow> request" where
  "Record_delete req = req\<lparr>model := (model req)\<lparr>is_deleted := True, data := None\<rparr>\<rparr>"

definition commit_row :: "request_metadata \<Rightarrow> request_metadata list \<Rightarrow> request_metadata list" where
  "commit_row m rows = map (\<lambda>r. if model_id r = model_id m then m else r) rows"

definition RequestsService_delete ::
  "service_config \<Rightarrow> service_state \<Rightarrow> string option \<Rightarrow> identity \<Rightarrow>
   py_error + (bool \<times> service_state)" where
  "RequestsService_delete cfg st id_v ident =
     (case get_request cfg (table st) id_v of
        Inl e \<Rightarrow> Inl e
      | Inr (rt, req) \<Rightarrow>
          (case require_permission (permits cfg) ident ''delete'' (Some req) of
             Some e \<Rightarrow> Inl e
           | None \<Rightarrow>
               (case run_hooks (delete_hooks cfg) ident req of
                  Some e \<Rightarrow> Inl e
                | None \<Rightarrow>
                    (let req' = Record_delete req;
                         st1 = st\<lparr>table := commit_row (model req') (table st)\<rparr>;
                         st2 = (if has_indexer cfg
                                then st1\<lparr>indexed := removeAll (model_id (model req')) (indexed st1)\<rparr>
                                else st1)
                     in Inr (True, st2)))))"

section \<open>services/user-moderation/service.py: UserModerationRequestService\<close>

text \<open>
  \<open>system_user_id\<close> and \<open>system_identity\<close> are the constants of invenio-access.
  The service is built over a requests service handed to its constructor, so that service
  is a parameter: its \<open>create\<close>, \<open>execute_action\<close> and \<open>search\<close> over a state of
  its own, and the \<open>id\<close> of a result item. A call returns its outcome and the state it
  leaves, also when it raises. The entity resolver, the type registry and
  \<open>UserModeration.type_id\<close> are not under src/ and are parameters too.
\<close>

definition system_user_id :: string where
  "system_user_id = ''system''"

definition system_identity :: identity where
  "system_identity = \<lparr>identity_id = ''system'', provides = [''system_process'']\<rparr>"

type_synonym entity_ref = py_dict

datatype query = Term string string | Bool_should "query list" nat

record ('s, 'i, 'u, 'r) requests_service =
  rs_create ::
    "identity \<Rightarrow> py_dict \<Rightarrow> request_type \<Rightarrow> entity_ref \<Rightarrow> entity_ref \<Rightarrow> 'u \<Rightarrow> 's \<Rightarrow>
     (py_error + 'i) \<times> 's"
  rs_execute_action ::
    "identity \<Rightarrow> string \<Rightarrow> string \<Rightarrow> py_dict option \<Rightarrow> 's \<Rightarrow> (py_error + 'i) \<times> 's"
  rs_search ::
    "identity \<Rightarrow> query \<Rightarrow> py_dict \<Rightarrow> bool \<Rightarrow> string option \<Rightarrow> 's \<Rightarrow> py_error + 'r"
  rs_item_id :: "'i \<Rightarrow> string"

record ('p, 'u) resolver_registry =
  resolve_entity_proxy :: "py_dict \<Rightarrow> py_error + 'p"
  resolve :: "'p \<Rightarrow> py_error + 'u"

record ('s, 'i, 'u, 'r, 'p) user_moderation_service =
  requests_service :: "('s, 'i, 'u, 'r) requests_service"
  policy :: "identity \<Rightarrow> string \<Rightarrow> request option \<Rightarrow> bool"
  resolvers :: "('p, 'u) resolver_registry"
  type_registry :: "string \<Rightarrow> request_type option"
  UserModeration_type_id :: string

text \<open>
  Modelled from the spec: the registry's \<open>lookup\<close> (the registry module is not under
  src/), which fails with UnknownTypeError when the type id is not registered.
\<close>

definition request_type_cls ::
  "('s, 'i, 'u, 'r, 'p) user_moderation_service \<Rightarrow> py_error + request_type" where
  "request_type_cls self =
     (case type_registry self (UserModeration_type_id self) of
        None \<Rightarrow> Inl (UnknownTypeError (UserModeration_type_id self))
      | Some cls \<Rightarrow> Inr cls)"

definition moderate ::
  "('s, 'i, 'u, 'r, 'p) user_moderation_service \<Rightarrow> identity \<Rightarrow> string \<Rightarrow> string \<Rightarrow>
   py_dict option \<Rightarrow> 's \<Rightarrow> (py_error + 'i) \<times> 's" where
  "moderate self ident request_id action_name data_v st =
     (case require_permission (policy self) ident ''moderate'' None of
        Some e \<Rightarrow> (Inl e, st)
      | None \<Rightarrow>
          rs_execute_action (requests_service self) system_identity request_id action_name
            data_v st)"

definition request_moderation ::
  "('s, 'i, 'u, 'r, 'p) user_moderation_service \<Rightarrow> identity \<Rightarrow> string \<Rightarrow> string \<Rightarrow>
   py_dict option \<Rightarrow> 's \<Rightarrow> (py_error + 'i) \<times> 's" where
  "request_moderation self ident creator topic data_v st =
     (case require_permission (policy self) ident ''request_moderation'' None of
        Some e \<Rightarrow> (Inl e, st)
      | None \<Rightarrow>
          if creator \<noteq> system_user_id then (Inl InvalidCreator, st)
          else
            (let data1 = (case data_v of None \<Rightarrow> [] | Some d \<Rightarrow> d) in
             case resolve_entity_proxy (resolvers self) [(''user'', topic)] of
               Inl e \<Rightarrow> (Inl e, st)
             | Inr proxy \<Rightarrow>
                 (case resolve (resolvers self) proxy of
                    Inl e \<Rightarrow> (Inl e, st)
                  | Inr topic1 \<Rightarrow>
                      (let receiver = [(''user_moderation'', system_user_id)];
                           creator1 = [(''user_moderation'', creator)]
                       in case request_type_cls self of
                            Inl e \<Rightarrow> (Inl e, st)
                          | Inr cls \<Rightarrow>
                              (case rs_create (requests_service self) ident data1 cls
                                      receiver creator1 topic1 st of
                                 (Inl e, st1) \<Rightarrow> (Inl e, st1)
                               | (Inr request_item, st1) \<Rightarrow>
                                   rs_execute_action (requests_service self) ident
                                     (rs_item_id (requests_service self) request_item)
                                     ''submit'' (Some data1) st1)))))"

definition search_moderation_requests ::
  "('s, 'i, 'u, 'r, 'p) user_moderation_service \<Rightarrow> identity \<Rightarrow> py_dict option \<Rightarrow> bool \<Rightarrow>
   's \<Rightarrow> py_error + 'r" where
  "search_moderation_requests self ident params expand st =
     (case require_permission (policy self) ident ''search_requests'' None of
        Some e \<Rightarrow> Inl e
      | None \<Rightarrow>
          (let params1 = (case params of None \<Rightarrow> [] | Some d \<Rightarrow> d) in
           case request_type_cls self of
             Inl e \<Rightarrow> Inl e
           | Inr cls \<Rightarrow>
               (let user_mod_only_q = Bool_should [Term ''type'' (type_id cls)] 1;
                    extra_filter = user_mod_only_q
                in rs_search (requests_service self) system_identity extra_filter params1
                     expand None st)))"

section \<open>The requests service behind the moderation workflow\<close>

text \<open>
  \<open>request_moderation\<close> calls \<open>create(identity, data, type, receiver, creator, topic)\<close>
  and \<open>execute_action(identity, id_, action, data)\<close> and reads the \<open>id\<close> of the item
  that \<open>create\<close> returns. The requests service with these signatures, its result items and
  the action classes of the user-moderation type are not under src/
  (services/requests/service.py there has the earlier \<open>create(identity, data, request_class)\<close>
  and \<open>execute_action(action, id_, identity)\<close>), so they are modelled from the spec. The
  dispatch inside is the Request aggregate's own \<open>can_execute_action\<close> and
  \<open>execute_action\<close> of records/api.py.

  The status of a request is the \<open>status\<close> entry of its JSON fields.
\<close>

definition status_is :: "string \<Rightarrow> request \<Rightarrow> bool" where
  "status_is s req = (map_of (json req) ''status'' = Some s)"

definition set_status :: "string \<Rightarrow> request \<Rightarrow> request" where
  "set_status s req = req\<lparr>json := (''status'', s) # filter (\<lambda>kv. fst kv \<noteq> ''status'') (json req)\<rparr>"








section \<open>Example data\<close>

definition naive_past :: datetime where
  "naive_past = \<lparr>wall = 1000, tzinfo = None\<rparr>"

definition aware_future :: datetime where
  "aware_future = \<lparr>wall = 9000, tzinfo = Some (Tzinfo (Some 3600))\<rparr>"

definition example_model :: request_metadata where
  "example_model =
     \<lparr>model_id = ''uuid-1'', external_id = Some ''1'', expires_at = None,
      is_deleted = False, data = Some [(''status'', ''created'')]\<rparr>"

definition example_request :: request where
  "example_request = \<lparr>json = [(''status'', ''created'')], model = example_model\<rparr>"

definition expiring :: "datetime \<Rightarrow> request" where
  "expiring d = example_request\<lparr>model := example_model\<lparr>expires_at := Some d\<rparr>\<rparr>"

text \<open>
  A request type with two actions. \<open>submit\<close> is executable in status created and moves
  the request to submitted; \<open>accept\<close> is executable in status submitted and moves it to
  accepted. Neither \<open>execute\<close> checks \<open>can_execute\<close> itself.
\<close>

definition transition :: "string \<Rightarrow> string \<Rightarrow> request \<Rightarrow> py_error + action" where
  "transition status_from status_to req =
     Inr \<lparr>can_execute = (\<lambda>ident. Inr (status_is status_from req)),
          execute = (\<lambda>ident. Inr (PyNone, set_status status_to req))\<rparr>"

definition example_type :: request_type where
  "example_type =
     \<lparr>type_id = ''user-moderation'',
      available_actions =
        map_of [(''submit'', transition ''created'' ''submitted''),
                (''accept'', transition ''submitted'' ''accepted'')]\<rparr>"

definition example_identity :: identity where
  "example_identity = \<lparr>identity_id = ''7'', provides = [''authenticated_user'']\<rparr>"

definition moderator_identity :: identity where
  "moderator_identity = \<lparr>identity_id = ''3'', provides = [''moderator'']\<rparr>"

definition deleted_model :: request_metadata where
  "deleted_model =
     \<lparr>model_id = ''uuid-2'', external_id = None, expires_at = None,
      is_deleted = True, data = None\<rparr>"

definition other_model :: request_metadata where
  "other_model =
     \<lparr>model_id = ''uuid-3'', external_id = Some ''3'', expires_at = None,
      is_deleted = False, data = Some [(''status'', ''submitted'')]\<rparr>"

definition example_table :: "request_metadata list" where
  "example_table = [example_model, deleted_model, other_model]"

definition example_config :: service_config where
  "example_config =
     \<lparr>permits = (\<lambda>ident action_name rec. True),
      delete_hooks = [\<lambda>ident req. None],
      registry_lookup = (\<lambda>t. Inr example_type),
      has_indexer = True\<rparr>"

definition example_state :: service_state where
  "example_state = \<lparr>table = example_table, indexed = [''uuid-1'', ''uuid-3'']\<rparr>"

text \<open>
  A requests service for the moderation workflow: its state is the list of its items,
  \<open>create\<close> appends an item in status created, \<open>execute_action\<close> runs the submit
  transition, and \<open>search\<close> returns the items the filter selects.
\<close>

record request_item =
  item_id :: string
  item_type :: string
  item_status :: string
  item_topic :: string
  item_receiver :: py_dict
  item_created_by :: py_dict

fun query_selects :: "query \<Rightarrow> request_item \<Rightarrow> bool" where
  "query_selects (Term k v) it = (k = ''type'' \<and> item_type it = v)"
| "query_selects (Bool_should qs n) it = (n \<le> length (filter (\<lambda>q. query_selects q it) qs))"

definition example_submit ::
  "string \<Rightarrow> request_item list \<Rightarrow> (py_error + request_item) \<times> request_item list" where
  "example_submit rid st =
     (case filter (\<lambda>it. item_id it = rid) st of
        [] \<Rightarrow> (Inl NoResultFound, st)
      | it # _ \<Rightarrow>
          if item_status it \<noteq> ''created'' then (Inl Exception_generic, st)
          else (Inr (it\<lparr>item_status := ''submitted''\<rparr>),
                map (\<lambda>x. if item_id x = rid then x\<lparr>item_status := ''submitted''\<rparr> else x) st))"

definition example_requests_service ::
  "(request_item list, request_item, string, request_item list) requests_service" where
  "example_requests_service =
     \<lparr>rs_create = (\<lambda>ident d cls receiver creator topic st.
        (let it = \<lparr>item_id = replicate (Suc (length st)) CHR ''r'', item_type = type_id cls,
                    item_status = ''created'', item_topic = topic, item_receiver = receiver,
                    item_created_by = creator\<rparr>
         in (Inr it, st @ [it]))),
      rs_execute_action = (\<lambda>ident rid action_name d st.
        if action_name = ''submit'' then example_submit rid st
        else (Inl (NoSuchActionError action_name), st)),
      rs_search = (\<lambda>ident q params expand permission_action st.
        Inr (filter (query_selects q) st)),
      rs_item_id = item_id\<rparr>"

definition example_service ::
  "(request_item list, request_item, string, request_item list, string)
     user_moderation_service" where
  "example_service =
     \<lparr>requests_service = example_requests_service,
      policy = (\<lambda>ident action_name rec. ''moderator'' \<in> set (provides ident)),
      resolvers = \<lparr>resolve_entity_proxy = (\<lambda>d. case d of [(k, v)] \<Rightarrow> Inr v | _ \<Rightarrow> Inl (KeyError ''user'')),
                   resolve = (\<lambda>p. Inr (''user:'' @ p))\<rparr>,
      type_registry = map_of [(''user-moderation'', example_type)],
      UserModeration_type_id = ''user-moderation''\<rparr>"

definition submitted_item :: request_item where
  "submitted_item =
     \<lparr>item_id = ''r'', item_type = ''user-moderation'', item_status = ''submitted'',
      item_topic = ''user:42'', item_receiver = [(''user_moderation'', ''system'')],
      item_created_by = [(''user_moderation'', ''system'')]\<rparr>"

definition community_item :: request_item where
  "community_item =
     \<lparr>item_id = ''rr'', item_type = ''community-invitation'', item_status = ''submitted'',
      item_topic = ''community:1'', item_receiver = [(''user'', ''5'')],
      item_created_by = [(''community'', ''1'')]\<rparr>"

definition soft_deleted_model :: request_metadata where
  "soft_deleted_model = example_model\<lparr>is_deleted := True, data := None\<rparr>"

definition example_state_after_delete :: service_state where
  "example_state_after_delete =
     \<lparr>table = [soft_deleted_model, deleted_model, other_model], indexed = [''uuid-3'']\<rparr>"








section \<open>Properties of the Request aggregate\<close>

lemma aware_is_expired_now: "aware (is_expired_now d clock) = aware d"
  by (simp add: aware_def is_expired_now_def utcnow_def pytz_utc_def Let_def
      split: option.splits)

lemma utc_instant_is_expired_now: "utc_instant (is_expired_now d clock) = clock"
  by (simp add: utc_instant_def is_expired_now_def utcnow_def pytz_utc_def Let_def
      split: option.splits)

text \<open>
  C4. \<open>is_expired\<close> is False when \<open>expires_at\<close> is unset. When it is set to \<open>d\<close>, the
  property never raises the TypeError of a mixed comparison: the \<open>now\<close> it compares with
  is aware exactly when \<open>d\<close> is, and the result is True iff the instant of \<open>d\<close> (its
  fields less its offset when aware, its fields read as UTC when naive) is strictly before
  the clock.
\<close>

theorem is_expired_timezone_normalized:
  "(expires_at (model self) = None \<longrightarrow> is_expired self clock = Inr False) \<and>
   (\<forall>d. expires_at (model self) = Some d \<longrightarrow>
      is_expired self clock = Inr (utc_instant d < clock) \<and>
      aware (is_expired_now d clock) = aware d \<and>
      datetime_lt d (is_expired_now d clock) \<noteq> Inl TypeError)"
  by (simp add: is_expired_def datetime_lt_def aware_is_expired_now utc_instant_is_expired_now)

theorem is_expired_timezone_normalized_witness:
  "is_expired example_request 5000 = Inr False \<and>
   is_expired (expiring naive_past) 5000 = Inr True \<and>
   is_expired (expiring aware_future) 5000 = Inr False \<and>
   is_expired (expiring aware_future) 5400 = Inr False \<and>
   is_expired (expiring aware_future) 5401 = Inr True \<and>
   datetime_lt aware_future (utcnow 5401) = Inl TypeError"
proof -
  have unset: "expires_at (model example_request) = None"
    by (simp add: example_request_def example_model_def)
  have naive: "expires_at (model (expiring naive_past)) = Some naive_past"
    by (simp add: expiring_def)
  have fut: "expires_at (model (expiring aware_future)) = Some aware_future"
    by (simp add: expiring_def)
  have i1: "utc_instant naive_past = 1000"
    by (simp add: utc_instant_def naive_past_def)
  have i2: "utc_instant aware_future = 5400"
    by (simp add: utc_instant_def aware_future_def)
  have mixed: "datetime_lt aware_future (utcnow 5401) = Inl TypeError"
    by (simp add: datetime_lt_def aware_def aware_future_def utcnow_def)
  show ?thesis
    using is_expired_timezone_normalized [of example_request 5000]
      is_expired_timezone_normalized [of "expiring naive_past" 5000]
      is_expired_timezone_normalized [of "expiring aware_future" 5000]
      is_expired_timezone_normalized [of "expiring aware_future" 5400]
      is_expired_timezone_normalized [of "expiring aware_future" 5401]
      unset naive fut i1 i2 mixed
    by simp
qed

lemma example_submit_ctor:
  "available_actions example_type ''submit'' = Some (transition ''created'' ''submitted'')"
  by (simp add: example_type_def)

lemma example_accept_ctor:
  "available_actions example_type ''accept'' = Some (transition ''submitted'' ''accepted'')"
  by (simp add: example_type_def)

lemma example_no_approve: "available_actions example_type ''approve'' = None"
  by (simp add: example_type_def)

text \<open>
  C5. \<open>get_action\<close> on a request of type \<open>rt\<close> fails with NoSuchActionError for
  every action name that is not a key of \<open>available_actions\<close>, and for a name that is a
  key it returns the action the registered constructor builds from the request (the
  constructor is called on the request itself and its action is returned unchanged).
\<close>

theorem get_action_lookup:
  "(available_actions rt action_name = None \<longrightarrow>
      get_action rt self action_name = Inl (NoSuchActionError action_name)) \<and>
   (\<forall>ctor a. available_actions rt action_name = Some ctor \<and> ctor self = Inr a \<longrightarrow>
      get_action rt self action_name = Inr a)"
  by (simp add: get_action_def)

theorem get_action_lookup_witness:
  "get_action example_type example_request ''approve'' = Inl (NoSuchActionError ''approve'') \<and>
   get_action example_type example_request ''submit'' =
     transition ''created'' ''submitted'' example_request"
  using get_action_lookup [of example_type "''approve''" example_request]
    get_action_lookup [of example_type "''submit''" example_request]
    example_submit_ctor example_no_approve
  by (simp add: transition_def)

text \<open>
  C6. \<open>can_execute_action\<close> returns exactly what \<open>can_execute\<close> of the action found by
  \<open>get_action\<close> returns, and for a name that is not an available action it raises
  NoSuchActionError rather than returning False.
\<close>

theorem can_execute_action_delegates:
  "can_execute_action rt self action_name ident =
     (case get_action rt self action_name of
        Inl e \<Rightarrow> Inl e
      | Inr a \<Rightarrow> can_execute a ident) \<and>
   (\<forall>a. get_action rt self action_name = Inr a \<longrightarrow>
      can_execute_action rt self action_name ident = can_execute a ident) \<and>
   (available_actions rt action_name = None \<longrightarrow>
      can_execute_action rt self action_name ident = Inl (NoSuchActionError action_name) \<and>
      can_execute_action rt self action_name ident \<noteq> Inr False)"
  by (simp add: can_execute_action_def get_action_def)

theorem can_execute_action_delegates_witness:
  "can_execute_action example_type example_request ''approve'' example_identity =
     Inl (NoSuchActionError ''approve'') \<and>
   can_execute_action example_type example_request ''submit'' example_identity = Inr True \<and>
   can_execute_action example_type example_request ''accept'' example_identity = Inr False"
proof -
  have s: "get_action example_type example_request ''submit'' =
      transition ''created'' ''submitted'' example_request"
    by (simp add: get_action_def example_submit_ctor transition_def)
  have a: "get_action example_type example_request ''accept'' =
      transition ''submitted'' ''accepted'' example_request"
    by (simp add: get_action_def example_accept_ctor transition_def)
  have n: "get_action example_type example_request ''approve'' =
      Inl (NoSuchActionError ''approve'')"
    by (simp add: get_action_def example_no_approve)
  have st: "status_is ''created'' example_request" "\<not> status_is ''submitted'' example_request"
    by (simp_all add: status_is_def example_request_def)
  show ?thesis
    using can_execute_action_delegates [of example_type example_request "''approve''" example_identity]
      can_execute_action_delegates [of example_type example_request "''submit''" example_identity]
      can_execute_action_delegates [of example_type example_request "''accept''" example_identity]
      example_no_approve n s a st
    by (simp add: transition_def)
qed

section \<open>Executing actions\<close>

lemma example_get_request:
  "get_request example_config (table example_state) (Some ''1'') =
     Inr (example_type, example_request)"
  by (simp add: get_request_def request_from_model_def query_one_def filter_by_external_id_def
      py_str_def example_state_def example_table_def example_model_def deleted_model_def
      other_model_def example_config_def Request_init_def example_request_def)

text \<open>
  C1, as the code has it. \<open>Request.execute_action\<close> makes no check of its own: for an
  available action it returns what the action's \<open>execute\<close> returns, whatever
  \<open>can_execute\<close> says. The service's \<open>execute_action\<close> checks
  \<open>can_execute_action\<close> first: when that is False the outcome is the exception raised
  at the check, the same whatever the action's \<open>execute\<close> would do, so \<open>execute\<close>
  is not run; when it is True it returns what \<open>Request.execute_action\<close> returns.
\<close>

theorem execute_action_delegates_service_prechecks:
  "(\<forall>ctor a. available_actions rt action_name = Some ctor \<and> ctor self = Inr a \<longrightarrow>
      execute_action rt self action_name ident = execute a ident) \<and>
   (\<forall>rt1 req. get_request cfg (table st) id_v = Inr (rt1, req) \<and>
        can_execute_action rt1 req action_name ident = Inr False \<longrightarrow>
      RequestsService_execute_action cfg st action_name id_v ident = Inl Exception_generic) \<and>
   (\<forall>rt1 req. get_request cfg (table st) id_v = Inr (rt1, req) \<and>
        can_execute_action rt1 req action_name ident = Inr True \<longrightarrow>
      RequestsService_execute_action cfg st action_name id_v ident =
        execute_action rt1 req action_name ident)"
  by (simp add: execute_action_def get_action_def RequestsService_execute_action_def)

theorem execute_action_delegates_service_prechecks_witness:
  "execute_action example_type example_request ''accept'' example_identity =
     Inr (PyNone, set_status ''accepted'' example_request) \<and>
   RequestsService_execute_action example_config example_state ''accept'' (Some ''1'')
     example_identity = Inl Exception_generic \<and>
   RequestsService_execute_action example_config example_state ''submit'' (Some ''1'')
     example_identity = Inr (PyNone, set_status ''submitted'' example_request)"
proof -
  have c1: "can_execute_action example_type example_request ''accept'' example_identity = Inr False"
    by (simp add: can_execute_action_def get_action_def example_accept_ctor transition_def
        status_is_def example_request_def)
  have c2: "can_execute_action example_type example_request ''submit'' example_identity = Inr True"
    by (simp add: can_execute_action_def get_action_def example_submit_ctor transition_def
        status_is_def example_request_def)
  have t: "transition ''submitted'' ''accepted'' example_request =
      Inr \<lparr>can_execute = (\<lambda>ident. Inr (status_is ''submitted'' example_request)),
           execute = (\<lambda>ident. Inr (PyNone, set_status ''accepted'' example_request))\<rparr>"
    by (simp add: transition_def)
  have e: "execute_action example_type example_request ''submit'' example_identity =
      Inr (PyNone, set_status ''submitted'' example_request)"
    by (simp add: execute_action_def get_action_def example_submit_ctor transition_def)
  show ?thesis
    using execute_action_delegates_service_prechecks
        [of example_type "''accept''" example_request example_identity example_config
          example_state "Some ''1''"]
      execute_action_delegates_service_prechecks
        [of example_type "''submit''" example_request example_identity example_config
          example_state "Some ''1''"]
      example_accept_ctor example_get_request c1 c2 t e
    by simp
qed

text \<open>
  C1 as stated fails. With the request in status created, \<open>accept\<close> is not executable;
  \<open>Request.execute_action\<close> still runs it and the request moves to accepted, and the
  service raises the bare \<open>Exception\<close>, not ActionNotExecutableError.
\<close>

theorem execute_action_counterexample:
  "can_execute_action example_type example_request ''accept'' example_identity = Inr False \<and>
   execute_action example_type example_request ''accept'' example_identity =
     Inr (PyNone, set_status ''accepted'' example_request) \<and>
   execute_action example_type example_request ''accept'' example_identity \<noteq>
     Inl ActionNotExecutableError \<and>
   RequestsService_execute_action example_config example_state ''accept'' (Some ''1'')
     example_identity = Inl Exception_generic \<and>
   RequestsService_execute_action example_config example_state ''accept'' (Some ''1'')
     example_identity \<noteq> Inl ActionNotExecutableError"
  by (simp add: RequestsService_execute_action_def example_get_request can_execute_action_def
      execute_action_def get_action_def example_accept_ctor transition_def status_is_def
      example_request_def)

section \<open>The moderation workflow\<close>

lemma example_policy:
  "policy example_service moderator_identity a None"
  "\<not> policy example_service example_identity a None"
  by (simp_all add: example_service_def moderator_identity_def example_identity_def)

lemma example_cls: "request_type_cls example_service = Inr example_type"
  by (simp add: request_type_cls_def example_service_def)

text \<open>
  C2, as the code has it. \<open>request_moderation\<close> checks the caller's
  \<open>request_moderation\<close> permission first. For a creator that is not the system actor,
  a caller who holds the permission gets InvalidCreator and a caller who does not gets
  PermissionDeniedError; either way the state is left as it was and the outcome does not
  depend on the requests service, which is never called, so no request is created.
\<close>

theorem request_moderation_rejects_creator:
  assumes "creator \<noteq> system_user_id"
  shows "request_moderation self ident creator topic data_v st =
      (if policy self ident ''request_moderation'' None then (Inl InvalidCreator, st)
       else (Inl (PermissionDeniedError ''request_moderation''), st)) \<and>
    snd (request_moderation self ident creator topic data_v st) = st \<and>
    (\<forall>rs. request_moderation (self\<lparr>requests_service := rs\<rparr>) ident creator topic data_v st =
       request_moderation self ident creator topic data_v st)"
  using assms by (simp add: request_moderation_def require_permission_def)

theorem request_moderation_rejects_creator_witness:
  "request_moderation example_service moderator_identity ''user-7'' ''user-42'' None [] =
     (Inl InvalidCreator, [])"
proof -
  have "''user-7'' \<noteq> system_user_id"
    by (simp add: system_user_id_def)
  from request_moderation_rejects_creator [OF this, of example_service moderator_identity
      "''user-42''" None "[]"]
  show ?thesis
    by (simp add: example_policy)
qed

text \<open>
  C2 as stated fails: for a caller without the \<open>request_moderation\<close> permission the
  creator \<open>user-7\<close> is rejected with PermissionDeniedError, not InvalidCreator.
\<close>

theorem request_moderation_creator_counterexample:
  "''user-7'' \<noteq> system_user_id \<and>
   request_moderation example_service example_identity ''user-7'' ''user-42'' None [] =
     (Inl (PermissionDeniedError ''request_moderation''), []) \<and>
   request_moderation example_service example_identity ''user-7'' ''user-42'' None [] \<noteq>
     (Inl InvalidCreator, [])"
  by (simp add: request_moderation_def require_permission_def example_policy system_user_id_def)














text \<open>
  C7. \<open>moderate\<close> first requires the \<open>moderate\<close> permission of the caller, and then
  returns what the requests service's \<open>execute_action\<close> returns for the system
  identity, the given request id, action and data; the caller's identity is not passed on,
  so two callers who both hold the permission get the same outcome.
\<close>

theorem moderate_runs_as_system:
  "moderate self ident request_id action_name data_v st =
     (if policy self ident ''moderate'' None
      then rs_execute_action (requests_service self) system_identity request_id action_name
             data_v st
      else (Inl (PermissionDeniedError ''moderate''), st)) \<and>
   (\<forall>ident2. policy self ident ''moderate'' None \<and> policy self ident2 ''moderate'' None \<longrightarrow>
      moderate self ident request_id action_name data_v st =
      moderate self ident2 request_id action_name data_v st)"
  by (simp add: moderate_def require_permission_def)

theorem moderate_runs_as_system_witness:
  "moderate example_service moderator_identity ''r'' ''submit'' None
     [submitted_item\<lparr>item_status := ''created''\<rparr>] = (Inr submitted_item, [submitted_item]) \<and>
   moderate example_service example_identity ''r'' ''submit'' None
     [submitted_item\<lparr>item_status := ''created''\<rparr>] =
     (Inl (PermissionDeniedError ''moderate''), [submitted_item\<lparr>item_status := ''created''\<rparr>])"
proof -
  have submit: "rs_execute_action (requests_service example_service) system_identity ''r''
      ''submit'' None [submitted_item\<lparr>item_status := ''created''\<rparr>] =
      (Inr submitted_item, [submitted_item])"
    by (simp add: example_service_def example_requests_service_def example_submit_def
        submitted_item_def)
  show ?thesis
    using moderate_runs_as_system [of example_service moderator_identity "''r''" "''submit''"
        None "[submitted_item\<lparr>item_status := ''created''\<rparr>]"]
      moderate_runs_as_system [of example_service example_identity "''r''" "''submit''"
        None "[submitted_item\<lparr>item_status := ''created''\<rparr>]"]
      submit example_policy
    by simp
qed

text \<open>
  C8. For a caller who passes the \<open>search_requests\<close> check,
  \<open>search_moderation_requests\<close> is the requests service's search run by the system
  identity, with \<open>permission_action\<close> None and the extra filter "type is the
  user-moderation type id"; a caller who fails the check gets PermissionDeniedError. Two
  callers who both pass get the same outcome.
\<close>

theorem search_moderation_requests_as_system:
  "(policy self ident ''search_requests'' None \<longrightarrow>
      search_moderation_requests self ident params expand st =
        (case request_type_cls self of
           Inl e \<Rightarrow> Inl e
         | Inr cls \<Rightarrow>
             rs_search (requests_service self) system_identity
               (Bool_should [Term ''type'' (type_id cls)] 1)
               (case params of None \<Rightarrow> [] | Some d \<Rightarrow> d) expand None st)) \<and>
   (\<not> policy self ident ''search_requests'' None \<longrightarrow>
      search_moderation_requests self ident params expand st =
        Inl (PermissionDeniedError ''search_requests'')) \<and>
   (\<forall>ident2. policy self ident ''search_requests'' None \<and>
        policy self ident2 ''search_requests'' None \<longrightarrow>
      search_moderation_requests self ident params expand st =
      search_moderation_requests self ident2 params expand st)"
  by (simp add: search_moderation_requests_def require_permission_def Let_def
      split: sum.splits)

theorem search_moderation_requests_as_system_witness:
  "search_moderation_requests example_service moderator_identity None False
     [submitted_item, community_item] = Inr [submitted_item] \<and>
   search_moderation_requests example_service (moderator_identity\<lparr>identity_id := ''4''\<rparr>)
     None False [submitted_item, community_item] =
   search_moderation_requests example_service moderator_identity None False
     [submitted_item, community_item] \<and>
   search_moderation_requests example_service example_identity None False
     [submitted_item, community_item] = Inl (PermissionDeniedError ''search_requests'')"
proof -
  have s: "rs_search (requests_service example_service) system_identity
      (Bool_should [Term ''type'' (type_id example_type)] 1)
      (case None of None \<Rightarrow> [] | Some d \<Rightarrow> d) False None [submitted_item, community_item] =
      Inr [submitted_item]"
    by (simp add: example_service_def example_requests_service_def example_type_def
        submitted_item_def community_item_def)
  have other: "policy example_service (moderator_identity\<lparr>identity_id := ''4''\<rparr>)
      ''search_requests'' None"
    by (simp add: example_service_def moderator_identity_def)
  show ?thesis
    using search_moderation_requests_as_system [of example_service moderator_identity None False
        "[submitted_item, community_item]"]
      search_moderation_requests_as_system [of example_service example_identity None False
        "[submitted_item, community_item]"]
      s example_policy example_cls other
    by auto
qed

section \<open>Looking requests up and deleting them\<close>

lemma query_one_Inr: "query_one xs = Inr m \<longleftrightarrow> xs = [m]"
  by (simp add: query_one_def split: list.splits)

lemma query_one_Inl:
  "query_one xs = Inl e \<Longrightarrow> e = NoResultFound \<or> e = MultipleResultsFound"
  by (simp add: query_one_def split: list.splits)

lemma query_one_single: "length xs \<noteq> 1 \<Longrightarrow> \<exists>e. query_one xs = Inl e"
  by (cases xs) (simp_all add: query_one_def split: list.splits)

lemma external_query:
  "filter_deleted wd (filter_by_external_id s rows) =
     filter (\<lambda>m. external_id m = Some s \<and> (wd \<or> \<not> is_deleted m)) rows"
  by (cases wd) (simp_all add: filter_deleted_def filter_by_external_id_def)

lemma id_query:
  "filter_deleted wd (filter_by_id v rows) =
     filter (\<lambda>m. Some (model_id m) = v \<and> (wd \<or> \<not> is_deleted m)) rows"
  by (cases wd) (simp_all add: filter_deleted_def filter_by_id_def)

lemma filter_none: "(\<And>r. r \<in> set xs \<Longrightarrow> \<not> P r) \<Longrightarrow> filter P xs = []"
  by (induction xs) simp_all

lemma filter_only:
  "distinct xs \<Longrightarrow> m \<in> set xs \<Longrightarrow> P m \<Longrightarrow> (\<And>r. r \<in> set xs \<Longrightarrow> P r \<Longrightarrow> r = m) \<Longrightarrow>
   filter P xs = [m]"
proof (induction xs)
  case Nil
  then show ?case by simp
next
  case (Cons x xs)
  show ?case
  proof (cases "x = m")
    case True
    from Cons.prems(1) True have notin: "m \<notin> set xs" by simp
    have "filter P xs = []"
    proof (rule filter_none)
      fix r assume r: "r \<in> set xs"
      show "\<not> P r"
      proof
        assume "P r"
        with r Cons.prems(4) [of r] have "r = m" by simp
        with r notin show False by simp
      qed
    qed
    with True Cons.prems(3) show ?thesis by simp
  next
    case False
    have npx: "\<not> P x"
    proof
      assume "P x"
      with Cons.prems(4) [of x] have "x = m" by simp
      with False show False by simp
    qed
    from False Cons.prems(2) have min: "m \<in> set xs" by simp
    from Cons.prems(1) have d: "distinct xs" by simp
    have "filter P xs = [m]"
    proof (rule Cons.IH [OF d min Cons.prems(3)])
      fix r assume "r \<in> set xs" "P r"
      then show "r = m" using Cons.prems(4) [of r] by simp
    qed
    with npx show ?thesis by simp
  qed
qed

lemma get_record_found:
  assumes "filter (\<lambda>m. external_id m = Some (py_str v) \<and> (wd \<or> \<not> is_deleted m)) rows = [m]"
  shows "get_record rows v wd = Inr (Request_init m)"
  using assms by (simp add: get_record_def external_query query_one_def)

lemma get_record_fallback:
  assumes "length (filter (\<lambda>m. external_id m = Some (py_str v) \<and> (wd \<or> \<not> is_deleted m)) rows) \<noteq> 1"
  shows "get_record rows v wd =
      (case filter (\<lambda>m. Some (model_id m) = v \<and> (wd \<or> \<not> is_deleted m)) rows of
         [] \<Rightarrow> Inl NoResultFound
       | [m] \<Rightarrow> Inr (Request_init m)
       | _ \<Rightarrow> Inl MultipleResultsFound)"
proof -
  from assms obtain e where e: "query_one (filter_deleted wd
      (filter_by_external_id (py_str v) rows)) = Inl e"
    using query_one_single unfolding external_query by blast
  then have "e = NoResultFound \<or> e = MultipleResultsFound"
    by (rule query_one_Inl)
  then have "get_record rows v wd =
      (case query_one (filter_deleted wd (filter_by_id v rows)) of
         Inl e \<Rightarrow> Inl e | Inr m \<Rightarrow> Inr (Request_init m))"
    using e by (auto simp: get_record_def)
  then show ?thesis
    by (simp add: id_query query_one_def split: list.splits)
qed

lemma get_record_Inr:
  assumes "get_record rows v wd = Inr r"
  shows "\<exists>m. r = Request_init m \<and> m \<in> set rows \<and> (wd \<or> \<not> is_deleted m) \<and>
     (external_id m = Some (py_str v) \<or> Some (model_id m) = v)"
proof (cases "query_one (filter_deleted wd (filter_by_external_id (py_str v) rows))")
  case (Inr m)
  then have "filter (\<lambda>m. external_id m = Some (py_str v) \<and> (wd \<or> \<not> is_deleted m)) rows = [m]"
    by (simp add: query_one_Inr external_query)
  then have "m \<in> set (filter (\<lambda>m. external_id m = Some (py_str v) \<and> (wd \<or> \<not> is_deleted m)) rows)"
    by simp
  moreover from Inr assms have "r = Request_init m"
    by (simp add: get_record_def)
  ultimately show ?thesis by auto
next
  case (Inl e)
  then have "e = NoResultFound \<or> e = MultipleResultsFound"
    by (rule query_one_Inl)
  with Inl assms obtain m where m: "query_one (filter_deleted wd (filter_by_id v rows)) = Inr m"
    and r: "r = Request_init m"
    by (cases "query_one (filter_deleted wd (filter_by_id v rows))")
      (auto simp: get_record_def)
  from m have "filter (\<lambda>m. Some (model_id m) = v \<and> (wd \<or> \<not> is_deleted m)) rows = [m]"
    by (simp add: query_one_Inr id_query)
  then have "m \<in> set (filter (\<lambda>m. Some (model_id m) = v \<and> (wd \<or> \<not> is_deleted m)) rows)"
    by simp
  with r show ?thesis by auto
qed

text \<open>
  C10. \<open>get_record\<close> takes external and internal ids. It first selects the rows whose
  \<open>external_id\<close> is the text of the id and that pass the \<open>is_deleted\<close> filter; when
  there is exactly one, that row is returned. When there is none or more than one, it
  selects by the primary key with the same \<open>is_deleted\<close> filter, and returns the only
  such row or raises NoResultFound or MultipleResultsFound. A row whose stored
  \<open>external_id\<close> is None is never selected by the first query, so it is found by its
  primary key.
\<close>

theorem get_record_external_then_internal:
  "(\<forall>m. filter (\<lambda>m. external_id m = Some (py_str id_v) \<and> (with_deleted \<or> \<not> is_deleted m)) rows = [m]
      \<longrightarrow> get_record rows id_v with_deleted = Inr (Request_init m)) \<and>
   (length (filter (\<lambda>m. external_id m = Some (py_str id_v) \<and> (with_deleted \<or> \<not> is_deleted m)) rows) \<noteq> 1
      \<longrightarrow> get_record rows id_v with_deleted =
        (case filter (\<lambda>m. Some (model_id m) = id_v \<and> (with_deleted \<or> \<not> is_deleted m)) rows of
           [] \<Rightarrow> Inl NoResultFound
         | [m] \<Rightarrow> Inr (Request_init m)
         | _ \<Rightarrow> Inl MultipleResultsFound)) \<and>
   (\<forall>m\<in>set rows. external_id m = None \<longrightarrow>
      m \<notin> set (filter (\<lambda>m. external_id m = Some (py_str id_v) \<and> (with_deleted \<or> \<not> is_deleted m)) rows))"
proof (intro conjI allI impI ballI)
  fix m
  assume "filter (\<lambda>m. external_id m = Some (py_str id_v) \<and> (with_deleted \<or> \<not> is_deleted m)) rows = [m]"
  then show "get_record rows id_v with_deleted = Inr (Request_init m)"
    by (rule get_record_found)
next
  assume "length (filter (\<lambda>m. external_id m = Some (py_str id_v) \<and> (with_deleted \<or> \<not> is_deleted m)) rows) \<noteq> 1"
  then show "get_record rows id_v with_deleted =
      (case filter (\<lambda>m. Some (model_id m) = id_v \<and> (with_deleted \<or> \<not> is_deleted m)) rows of
         [] \<Rightarrow> Inl NoResultFound
       | [m] \<Rightarrow> Inr (Request_init m)
       | _ \<Rightarrow> Inl MultipleResultsFound)"
    by (rule get_record_fallback)
next
  fix m :: request_metadata
  assume "external_id m = None"
  then show "m \<notin> set (filter (\<lambda>m. external_id m = Some (py_str id_v) \<and> (with_deleted \<or> \<not> is_deleted m)) rows)"
    by simp
qed

lemma example_external_live:
  "filter (\<lambda>m. external_id m = Some s \<and> \<not> is_deleted m) example_table =
     (if s = ''1'' then [example_model] else if s = ''3'' then [other_model] else [])"
  by (simp add: example_table_def example_model_def deleted_model_def other_model_def)

lemma example_external_all:
  "filter (\<lambda>m. external_id m = Some s) example_table =
     (if s = ''1'' then [example_model] else if s = ''3'' then [other_model] else [])"
  by (simp add: example_table_def example_model_def deleted_model_def other_model_def)

lemma example_id_live:
  "filter (\<lambda>m. model_id m = s \<and> \<not> is_deleted m) example_table =
     (if s = ''uuid-1'' then [example_model]
      else if s = ''uuid-3'' then [other_model] else [])"
  by (simp add: example_table_def example_model_def deleted_model_def other_model_def)

lemma example_id_all:
  "filter (\<lambda>m. model_id m = s) example_table =
     (if s = ''uuid-1'' then [example_model]
      else if s = ''uuid-2'' then [deleted_model]
      else if s = ''uuid-3'' then [other_model] else [])"
  by (simp add: example_table_def example_model_def deleted_model_def other_model_def)

theorem get_record_external_then_internal_witness:
  "get_record example_table (Some ''1'') False = Inr (Request_init example_model) \<and>
   get_record example_table (Some ''uuid-3'') False = Inr (Request_init other_model) \<and>
   get_record example_table (Some ''uuid-2'') False = Inl NoResultFound \<and>
   get_record example_table (Some ''uuid-2'') True = Inr (Request_init deleted_model) \<and>
   external_id deleted_model = None"
proof -
  have n: "external_id deleted_model = None"
    by (simp add: deleted_model_def)
  show ?thesis
    using get_record_external_then_internal
        [where id_v = "Some ''1''" and with_deleted = False and rows = example_table]
      get_record_external_then_internal
        [where id_v = "Some ''uuid-3''" and with_deleted = False and rows = example_table]
      get_record_external_then_internal
        [where id_v = "Some ''uuid-2''" and with_deleted = False and rows = example_table]
      get_record_external_then_internal
        [where id_v = "Some ''uuid-2''" and with_deleted = True and rows = example_table]
      n
    by (simp add: example_external_live example_external_all example_id_live example_id_all
        py_str_def)
qed

lemma model_Request_init: "model (Request_init m) = m"
  by (simp add: Request_init_def)

lemma query_get_in: "query_get rows v = Some m \<Longrightarrow> m \<in> set rows"
proof -
  assume a: "query_get rows v = Some m"
  then obtain ms where "filter_by_id v rows = m # ms"
    by (cases "filter_by_id v rows") (simp_all add: query_get_def)
  then have "m \<in> set (filter_by_id v rows)" by simp
  then show ?thesis by (simp add: filter_by_id_def)
qed

lemma get_request_in_table:
  assumes "get_request cfg rows v = Inr (rt, req)"
  shows "model req \<in> set rows"
proof -
  let ?mo = "case query_one (filter_by_external_id (py_str v) rows) of
      Inr m \<Rightarrow> Some m | Inl e \<Rightarrow> query_get rows v"
  from assms have r: "request_from_model cfg ?mo = Inr (rt, req)"
    by (simp add: get_request_def)
  then obtain m where mo: "?mo = Some m"
    by (cases ?mo) (simp_all add: request_from_model_def)
  with r have req: "req = Request_init m"
    by (simp add: request_from_model_def split: option.splits sum.splits)
  have "m \<in> set rows"
  proof (cases "query_one (filter_by_external_id (py_str v) rows)")
    case (Inr m')
    with mo have "m' = m" by simp
    with Inr have "filter_by_external_id (py_str v) rows = [m]"
      by (simp add: query_one_Inr)
    then have "m \<in> set (filter_by_external_id (py_str v) rows)" by simp
    then show ?thesis by (simp add: filter_by_external_id_def)
  next
    case (Inl e)
    with mo have "query_get rows v = Some m" by simp
    then show ?thesis by (rule query_get_in)
  qed
  with req show ?thesis by (simp add: model_Request_init)
qed

lemma commit_row_ids: "map model_id (commit_row m rows) = map model_id rows"
  by (induction rows) (simp_all add: commit_row_def)

lemma commit_row_in:
  "r \<in> set rows \<Longrightarrow> model_id r = model_id m \<Longrightarrow> m \<in> set (commit_row m rows)"
  by (induction rows) (auto simp: commit_row_def)

lemma commit_row_same_id:
  "r \<in> set (commit_row m rows) \<Longrightarrow> model_id r = model_id m \<Longrightarrow> r = m"
  by (induction rows) (auto simp: commit_row_def split: if_splits)

lemma delete_result:
  assumes "RequestsService_delete cfg st id_v ident = Inr (ok, st')"
    and "get_request cfg (table st) id_v = Inr (rt, req)"
  shows "ok \<and> table st' = commit_row ((model req)\<lparr>is_deleted := True, data := None\<rparr>) (table st) \<and>
     indexed st' = (if has_indexer cfg then removeAll (model_id (model req)) (indexed st)
                    else indexed st)"
  using assms
  by (simp add: RequestsService_delete_def Record_delete_def Let_def
      split: option.splits if_splits)
    auto


lemma same_id_same_row:
  "distinct (map model_id rows) \<Longrightarrow> r \<in> set rows \<Longrightarrow> m \<in> set rows \<Longrightarrow>
   model_id r = model_id m \<Longrightarrow> r = m"
  by (simp add: distinct_map inj_on_def)

lemma get_record_excludes_deleted:
  assumes "get_record rows v False = Inr r"
  shows "\<not> is_deleted (model r)"
proof -
  from get_record_Inr [OF assms] obtain m where "r = Request_init m" and "\<not> is_deleted m"
    by auto
  then show ?thesis by (simp add: model_Request_init)
qed

lemma get_record_deleted_by_id:
  assumes m: "m \<in> set rows" and del: "is_deleted m"
    and ids: "distinct (map model_id rows)"
    and ext: "\<And>r. r \<in> set rows \<Longrightarrow> external_id r \<noteq> Some (model_id m)"
  shows "get_record rows (Some (model_id m)) False = Inl NoResultFound"
    and "get_record rows (Some (model_id m)) True = Inr (Request_init m)"
proof -
  have noext: "filter (\<lambda>r. external_id r = Some (py_str (Some (model_id m))) \<and>
      (wd \<or> \<not> is_deleted r)) rows = []" for wd
    by (rule filter_none) (auto simp: py_str_def dest: ext)
  have live: "filter (\<lambda>r. Some (model_id r) = Some (model_id m) \<and>
      (False \<or> \<not> is_deleted r)) rows = []"
  proof (rule filter_none)
    fix r assume r: "r \<in> set rows"
    show "\<not> (Some (model_id r) = Some (model_id m) \<and> (False \<or> \<not> is_deleted r))"
    proof
      assume a: "Some (model_id r) = Some (model_id m) \<and> (False \<or> \<not> is_deleted r)"
      then have "r = m" using same_id_same_row [OF ids r m] by simp
      with a del show False by simp
    qed
  qed
  from ids have d: "distinct rows" by (simp add: distinct_map)
  have all: "filter (\<lambda>r. Some (model_id r) = Some (model_id m) \<and>
      (True \<or> \<not> is_deleted r)) rows = [m]"
  proof (rule filter_only [OF d m])
    show "Some (model_id m) = Some (model_id m) \<and> (True \<or> \<not> is_deleted m)" by simp
  next
    fix r assume "r \<in> set rows"
      and "Some (model_id r) = Some (model_id m) \<and> (True \<or> \<not> is_deleted r)"
    then show "r = m" using same_id_same_row [OF ids _ m] by simp
  qed
  show "get_record rows (Some (model_id m)) False = Inl NoResultFound"
    using get_record_fallback [of "Some (model_id m)" False rows]
    by (simp only: noext live list.size list.case)
  show "get_record rows (Some (model_id m)) True = Inr (Request_init m)"
    using get_record_fallback [of "Some (model_id m)" True rows]
    by (simp only: noext all list.size list.case)
qed

lemma get_record_deleted_by_external_id:
  assumes m: "m \<in> set rows" and d: "distinct rows"
    and e: "external_id m = Some e"
    and only: "\<And>r. r \<in> set rows \<Longrightarrow> external_id r = Some e \<Longrightarrow> r = m"
  shows "get_record rows (Some e) True = Inr (Request_init m)"
proof (rule get_record_found)
  show "filter (\<lambda>r. external_id r = Some (py_str (Some e)) \<and> (True \<or> \<not> is_deleted r)) rows = [m]"
  proof (rule filter_only [OF d m])
    show "external_id m = Some (py_str (Some e)) \<and> (True \<or> \<not> is_deleted m)"
      using e by (simp add: py_str_def)
  next
    fix r assume "r \<in> set rows"
      and "external_id r = Some (py_str (Some e)) \<and> (True \<or> \<not> is_deleted r)"
    then show "r = m" using only [of r] by (simp add: py_str_def)
  qed
qed

lemma delete_is_logical:
  assumes del: "RequestsService_delete cfg st id_v ident = Inr (ok, st')"
  shows "ok \<and> map model_id (table st') = map model_id (table st) \<and>
    (\<exists>rt req. get_request cfg (table st) id_v = Inr (rt, req) \<and>
       model req \<in> set (table st) \<and>
       (model req)\<lparr>is_deleted := True, data := None\<rparr> \<in> set (table st') \<and>
       (has_indexer cfg \<longrightarrow> model_id (model req) \<notin> set (indexed st')) \<and>
       (\<forall>v r. get_record (table st') v False = Inr r \<longrightarrow>
          model_id (model r) \<noteq> model_id (model req)))"
proof -
  from del obtain rt req where g: "get_request cfg (table st) id_v = Inr (rt, req)"
    by (cases "get_request cfg (table st) id_v") (auto simp: RequestsService_delete_def)
  let ?m = "(model req)\<lparr>is_deleted := True, data := None\<rparr>"
  from delete_result [OF del g] have ok: ok
    and t: "table st' = commit_row ?m (table st)"
    and i: "indexed st' = (if has_indexer cfg
        then removeAll (model_id (model req)) (indexed st) else indexed st)"
    by simp_all
  from g have old: "model req \<in> set (table st)"
    by (rule get_request_in_table)
  have ids: "map model_id (table st') = map model_id (table st)"
    by (simp add: t commit_row_ids)
  have new: "?m \<in> set (table st')"
    unfolding t by (rule commit_row_in [OF old]) simp
  have idx: "has_indexer cfg \<longrightarrow> model_id (model req) \<notin> set (indexed st')"
    by (simp add: i)
  have hidden: "model_id (model r) \<noteq> model_id (model req)"
    if "get_record (table st') v False = Inr r" for v r
  proof
    assume same: "model_id (model r) = model_id (model req)"
    from get_record_Inr [OF that] obtain m where r: "r = Request_init m"
      and m: "m \<in> set (table st')" and live: "\<not> is_deleted m" by auto
    from same r have "model_id m = model_id ?m" by (simp add: model_Request_init)
    with m have "m = ?m" unfolding t by (rule commit_row_same_id)
    then have "is_deleted m" by simp
    with live show False by simp
  qed
  from ok ids g old new idx hidden show ?thesis by blast
qed

lemma delete_total:
  assumes "get_request cfg (table st) id_v = Inr (rt, req)"
    and "permits cfg ident ''delete'' (Some req)"
    and "run_hooks (delete_hooks cfg) ident req = None"
  shows "RequestsService_delete cfg st id_v ident =
      Inr (True,
        if has_indexer cfg
        then st\<lparr>table := map (\<lambda>r. if model_id r = model_id (model req)
                  then (model req)\<lparr>is_deleted := True, data := None\<rparr> else r) (table st),
                indexed := removeAll (model_id (model req)) (indexed st)\<rparr>
        else st\<lparr>table := map (\<lambda>r. if model_id r = model_id (model req)
                  then (model req)\<lparr>is_deleted := True, data := None\<rparr> else r) (table st)\<rparr>)"
  using assms
  by (simp add: RequestsService_delete_def require_permission_def Record_delete_def
      commit_row_def Let_def)

lemma example_delete:
  "RequestsService_delete example_config example_state (Some ''1'') example_identity =
     Inr (True, example_state_after_delete)"
proof -
  have p: "require_permission (permits example_config) example_identity ''delete''
      (Some example_request) = None"
    by (simp add: require_permission_def example_config_def)
  have h: "run_hooks (delete_hooks example_config) example_identity example_request = None"
    by (simp add: example_config_def)
  have i: "has_indexer example_config"
    by (simp add: example_config_def)
  have m: "model (Record_delete example_request) = soft_deleted_model"
    by (simp add: Record_delete_def example_request_def soft_deleted_model_def)
  have c: "commit_row soft_deleted_model (table example_state) =
      [soft_deleted_model, deleted_model, other_model]"
    by (simp add: commit_row_def example_state_def example_table_def soft_deleted_model_def
        example_model_def deleted_model_def other_model_def)
  have r: "removeAll (model_id soft_deleted_model) (indexed example_state) = [''uuid-3'']"
    by (simp add: example_state_def soft_deleted_model_def example_model_def)
  show ?thesis
    unfolding RequestsService_delete_def example_get_request
    by (simp add: p h i m c r Let_def example_state_after_delete_def)
qed

text \<open>
  C9. A request whose \<open>is_deleted\<close> flag is set is excluded from default lookups:
  whatever id is asked for, \<open>get_record\<close> with \<open>with_deleted=False\<close> only returns rows
  that are not deleted. With \<open>with_deleted=True\<close> the deleted row is still returned:
  under its primary key when primary keys are distinct and no row's external id is that
  key (the default lookup of the same key then raises NoResultFound), and under its external
  id when no other row carries it. Deleting through the service is logical. When the
  request is found, the caller holds the \<open>delete\<close> permission on it and the components'
  hooks pass, \<open>delete\<close> returns True and leaves the table with the row of the request
  replaced by the same row with \<open>is_deleted\<close> set and its JSON emptied, every other row
  as it was, and the index without the request's id when an indexer is configured. Whenever
  \<open>delete\<close> returns, it returns True, the table holds the same primary keys in the same
  order, the flagged row of the request is in it, its id has left the index, and no default
  lookup returns it.
\<close>

theorem deleted_hidden_and_delete_logical:
  "(\<forall>v r. get_record rows v False = Inr r \<longrightarrow> \<not> is_deleted (model r)) \<and>
   (\<forall>m. m \<in> set rows \<and> is_deleted m \<and> distinct (map model_id rows) \<and>
        (\<forall>r\<in>set rows. external_id r \<noteq> Some (model_id m)) \<longrightarrow>
      get_record rows (Some (model_id m)) False = Inl NoResultFound \<and>
      get_record rows (Some (model_id m)) True = Inr (Request_init m)) \<and>
   (\<forall>m e. m \<in> set rows \<and> is_deleted m \<and> distinct rows \<and> external_id m = Some e \<and>
        (\<forall>r\<in>set rows. external_id r = Some e \<longrightarrow> r = m) \<longrightarrow>
      get_record rows (Some e) True = Inr (Request_init m)) \<and>
   (\<forall>rt req. get_request cfg (table st) id_v = Inr (rt, req) \<and>
        permits cfg ident ''delete'' (Some req) \<and>
        run_hooks (delete_hooks cfg) ident req = None \<longrightarrow>
      RequestsService_delete cfg st id_v ident =
        Inr (True,
          if has_indexer cfg
          then st\<lparr>table := map (\<lambda>r. if model_id r = model_id (model req)
                    then (model req)\<lparr>is_deleted := True, data := None\<rparr> else r) (table st),
                  indexed := removeAll (model_id (model req)) (indexed st)\<rparr>
          else st\<lparr>table := map (\<lambda>r. if model_id r = model_id (model req)
                    then (model req)\<lparr>is_deleted := True, data := None\<rparr> else r) (table st)\<rparr>)) \<and>
   (\<forall>ok st'. RequestsService_delete cfg st id_v ident = Inr (ok, st') \<longrightarrow>
      ok \<and> map model_id (table st') = map model_id (table st) \<and>
      (\<exists>rt req. get_request cfg (table st) id_v = Inr (rt, req) \<and>
         model req \<in> set (table st) \<and>
         (model req)\<lparr>is_deleted := True, data := None\<rparr> \<in> set (table st') \<and>
         (has_indexer cfg \<longrightarrow> model_id (model req) \<notin> set (indexed st')) \<and>
         (\<forall>v r. get_record (table st') v False = Inr r \<longrightarrow>
            model_id (model r) \<noteq> model_id (model req))))"
proof (intro conjI allI impI)
  fix v r assume "get_record rows v False = Inr r"
  then show "\<not> is_deleted (model r)" by (rule get_record_excludes_deleted)
next
  fix m
  assume a: "m \<in> set rows \<and> is_deleted m \<and> distinct (map model_id rows) \<and>
    (\<forall>r\<in>set rows. external_id r \<noteq> Some (model_id m))"
  then show "get_record rows (Some (model_id m)) False = Inl NoResultFound"
    by (intro get_record_deleted_by_id(1)) auto
  from a show "get_record rows (Some (model_id m)) True = Inr (Request_init m)"
    by (intro get_record_deleted_by_id(2)) auto
next
  fix m e
  assume "m \<in> set rows \<and> is_deleted m \<and> distinct rows \<and> external_id m = Some e \<and>
    (\<forall>r\<in>set rows. external_id r = Some e \<longrightarrow> r = m)"
  then show "get_record rows (Some e) True = Inr (Request_init m)"
    by (intro get_record_deleted_by_external_id) auto
next
  fix rt req
  assume "get_request cfg (table st) id_v = Inr (rt, req) \<and>
    permits cfg ident ''delete'' (Some req) \<and>
    run_hooks (delete_hooks cfg) ident req = None"
  then show "RequestsService_delete cfg st id_v ident =
      Inr (True,
        if has_indexer cfg
        then st\<lparr>table := map (\<lambda>r. if model_id r = model_id (model req)
                  then (model req)\<lparr>is_deleted := True, data := None\<rparr> else r) (table st),
                indexed := removeAll (model_id (model req)) (indexed st)\<rparr>
        else st\<lparr>table := map (\<lambda>r. if model_id r = model_id (model req)
                  then (model req)\<lparr>is_deleted := True, data := None\<rparr> else r) (table st)\<rparr>)"
    by (intro delete_total) simp_all
next
  fix ok st' assume d: "RequestsService_delete cfg st id_v ident = Inr (ok, st')"
  from delete_is_logical [OF d] show ok by simp
  from delete_is_logical [OF d]
  show "map model_id (table st') = map model_id (table st)" by simp
  from delete_is_logical [OF d]
  show "\<exists>rt req. get_request cfg (table st) id_v = Inr (rt, req) \<and>
         model req \<in> set (table st) \<and>
         (model req)\<lparr>is_deleted := True, data := None\<rparr> \<in> set (table st') \<and>
         (has_indexer cfg \<longrightarrow> model_id (model req) \<notin> set (indexed st')) \<and>
         (\<forall>v r. get_record (table st') v False = Inr r \<longrightarrow>
            model_id (model r) \<noteq> model_id (model req))" by simp
qed

theorem deleted_hidden_and_delete_logical_witness:
  "get_record example_table (Some ''uuid-2'') False = Inl NoResultFound \<and>
   get_record example_table (Some ''uuid-2'') True = Inr (Request_init deleted_model) \<and>
   RequestsService_delete example_config example_state (Some ''1'') example_identity =
     Inr (True, example_state_after_delete) \<and>
   map model_id (table example_state_after_delete) = map model_id (table example_state) \<and>
   soft_deleted_model \<in> set (table example_state_after_delete) \<and>
   ''uuid-1'' \<notin> set (indexed example_state_after_delete) \<and>
   get_record (table example_state_after_delete) (Some ''1'') True =
     Inr (Request_init soft_deleted_model) \<and>
   get_record (table example_state_after_delete) (Some ''1'') False \<noteq>
     Inr (Request_init soft_deleted_model)"
proof -
  have m2: "deleted_model \<in> set example_table \<and> is_deleted deleted_model \<and>
      distinct (map model_id example_table) \<and>
      (\<forall>r\<in>set example_table. external_id r \<noteq> Some (model_id deleted_model))"
    by (simp add: example_table_def example_model_def deleted_model_def other_model_def)
  have id2: "model_id deleted_model = ''uuid-2''"
    by (simp add: deleted_model_def)
  have m1: "soft_deleted_model \<in> set (table example_state_after_delete) \<and>
      is_deleted soft_deleted_model \<and> distinct (table example_state_after_delete) \<and>
      external_id soft_deleted_model = Some ''1'' \<and>
      (\<forall>r\<in>set (table example_state_after_delete).
         external_id r = Some ''1'' \<longrightarrow> r = soft_deleted_model)"
    by (simp add: example_state_after_delete_def soft_deleted_model_def example_model_def
        deleted_model_def other_model_def)
  have del: "is_deleted (model (Request_init soft_deleted_model))"
    by (simp add: Request_init_def soft_deleted_model_def)
  have ix: "''uuid-1'' \<notin> set (indexed example_state_after_delete)"
    by (simp add: example_state_after_delete_def)
  note t1 = deleted_hidden_and_delete_logical
    [of example_table example_config example_state "Some ''1''" example_identity]
  note t2 = deleted_hidden_and_delete_logical
    [of "table example_state_after_delete" example_config example_state "Some ''1''"
      example_identity]
  from t1 m2 id2 have a: "get_record example_table (Some ''uuid-2'') False = Inl NoResultFound"
    and b: "get_record example_table (Some ''uuid-2'') True = Inr (Request_init deleted_model)"
    by auto
  from t2 m1 have c: "get_record (table example_state_after_delete) (Some ''1'') True =
      Inr (Request_init soft_deleted_model)"
    by blast
  from t2 del have d: "get_record (table example_state_after_delete) (Some ''1'') False \<noteq>
      Inr (Request_init soft_deleted_model)"
    by blast
  have found: "get_request example_config (table example_state) (Some ''1'') =
      Inr (example_type, example_request) \<and>
      permits example_config example_identity ''delete'' (Some example_request) \<and>
      run_hooks (delete_hooks example_config) example_identity example_request = None"
  proof (intro conjI)
    show "get_request example_config (table example_state) (Some ''1'') =
        Inr (example_type, example_request)"
      by (rule example_get_request)
    show "permits example_config example_identity ''delete'' (Some example_request)"
      by (simp add: example_config_def)
    show "run_hooks (delete_hooks example_config) example_identity example_request = None"
      by (simp add: example_config_def)
  qed
  from t1 found
  have run: "RequestsService_delete example_config example_state (Some ''1'') example_identity =
      Inr (True,
        if has_indexer example_config
        then example_state\<lparr>table := map (\<lambda>r. if model_id r = model_id (model example_request)
                  then (model example_request)\<lparr>is_deleted := True, data := None\<rparr> else r)
                  (table example_state),
                indexed := removeAll (model_id (model example_request))
                  (indexed example_state)\<rparr>
        else example_state\<lparr>table := map (\<lambda>r. if model_id r = model_id (model example_request)
                  then (model example_request)\<lparr>is_deleted := True, data := None\<rparr> else r)
                  (table example_state)\<rparr>)"
    by blast
  from t1 example_delete
  have ids: "map model_id (table example_state_after_delete) = map model_id (table example_state)"
    by blast
  from run example_delete have "example_state_after_delete =
      example_state\<lparr>table := map (\<lambda>r. if model_id r = model_id (model example_request)
                  then (model example_request)\<lparr>is_deleted := True, data := None\<rparr> else r)
                  (table example_state),
                indexed := removeAll (model_id (model example_request))
                  (indexed example_state)\<rparr>"
    by (simp add: example_config_def)
  with a b c d run ids ix m1 show ?thesis by (simp add: example_config_def)
qed

end
